theory Spec2Isabelle
  imports Complex_Main
begin

section \<open>Data model (internal/models/transaction.go)\<close>

text \<open>
  Go's \<open>uint\<close> identifiers are natural numbers and \<open>int\<close> values are integers: the
  code only compares them, it never does arithmetic on them. A \<open>decimal.Decimal\<close> is an
  exact rational. A \<open>time.Time\<close> is a number of seconds, the zero time being \<open>0\<close>.
\<close>

record Transaction =
  ID :: nat
  UserID :: nat
  Amount :: rat
  Status :: string
  CreatedAt :: nat
  UpdatedAt :: nat

record TransactionFilters =
  UserID :: nat
  Status :: string
  Limit :: int
  Offset :: int

record CreateTransactionRequest =
  UserID :: nat
  Amount :: rat

record StatusCounts =
  Success :: int
  Pending :: int
  Failed :: int

record DashboardSummary =
  TodaySuccessfulTransactions :: int
  TodaySuccessfulAmount :: rat
  AverageTransactionPerUser :: rat
  LatestTransactions :: "Transaction list"
  StatusCounts :: StatusCounts

text \<open>The zero value of a Go struct: what \<open>var t models.Transaction\<close> holds.\<close>

definition zero_Transaction :: Transaction where
  "zero_Transaction =
     \<lparr>ID = 0, Transaction.UserID = 0, Transaction.Amount = 0, Transaction.Status = [],
      CreatedAt = 0, UpdatedAt = 0\<rparr>"

definition zero_StatusCounts :: StatusCounts where
  "zero_StatusCounts = \<lparr>Success = 0, Pending = 0, Failed = 0\<rparr>"


section \<open>Errors\<close>

text \<open>
  An error value coming out of the storage layer. The services look at two things only:
  whether \<open>errors.Is(err, gorm.ErrRecordNotFound)\<close> holds, and the text of
  \<open>err.Error()\<close> (through the verb \<open>%v\<close>).
  The errors the services build themselves (\<open>errors.New\<close>, \<open>fmt.Errorf\<close>) are read by
  the handlers through \<open>err.Error()\<close> alone, so they are their message.
\<close>

datatype go_error = GoError (is_ErrRecordNotFound: bool) (Error: string)

definition ErrRecordNotFound :: go_error where
  "ErrRecordNotFound = GoError True ''record not found''"

text \<open>
  The value of a column in the \<open>map[string]interface{}\<close> handed to \<open>Update\<close>. The
  map itself is the list of its entries, one per key.
\<close>

datatype field_value = StringValue string | UintValue nat | DecimalValue rat


section \<open>The repository interface (TransactionRepository)\<close>

text \<open>
  The services hold the repository as an interface, so it is a record of operations over
  a store state \<open>'s\<close> of any type. Every operation takes the state and returns the new
  one with its Go results: the value and the error (\<open>None\<close> is \<open>nil\<close>).
  \<open>Create\<close> receives a pointer: the transaction it returns is what the pointer holds
  after the call. \<open>GetByID\<close> returns a pointer that may be \<open>nil\<close>.
\<close>

record 's TransactionRepository =
  Create :: "Transaction \<Rightarrow> 's \<Rightarrow> (Transaction \<times> go_error option) \<times> 's"
  GetByID :: "nat \<Rightarrow> 's \<Rightarrow> (Transaction option \<times> go_error option) \<times> 's"
  GetAll :: "TransactionFilters \<Rightarrow> 's \<Rightarrow> (Transaction list \<times> go_error option) \<times> 's"
  Update :: "nat \<Rightarrow> (string \<times> field_value) list \<Rightarrow> 's \<Rightarrow> go_error option \<times> 's"
  Delete :: "nat \<Rightarrow> 's \<Rightarrow> go_error option \<times> 's"
  GetTodaySuccessful :: "'s \<Rightarrow> ((int \<times> rat) \<times> go_error option) \<times> 's"
  GetAveragePerUser :: "'s \<Rightarrow> (rat \<times> go_error option) \<times> 's"
  GetLatest :: "int \<Rightarrow> 's \<Rightarrow> (Transaction list \<times> go_error option) \<times> 's"
  GetStatusCounts :: "'s \<Rightarrow> (StatusCounts \<times> go_error option) \<times> 's"


section \<open>Transaction service (internal/services/transaction.go)\<close>

text \<open>
  A service method returns \<open>Inl msg\<close> for a non-nil error with text \<open>msg\<close> and
  \<open>Inr v\<close> for the value \<open>v\<close> with a nil error, next to the store state it leaves.
\<close>

definition CreateTransaction ::
  "'s TransactionRepository \<Rightarrow> CreateTransactionRequest \<Rightarrow> 's \<Rightarrow> (string + Transaction) \<times> 's"
where
  "CreateTransaction repo req s =
     (let transaction =
            zero_Transaction
              \<lparr>Transaction.UserID := CreateTransactionRequest.UserID req,
               Transaction.Amount := CreateTransactionRequest.Amount req,
               Transaction.Status := ''pending''\<rparr>;
          ((transaction, err), s) = Create repo transaction s
      in case err of
           Some e \<Rightarrow> (Inl (''failed to create transaction: '' @ Error e), s)
         | None \<Rightarrow> (Inr transaction, s))"

definition GetTransaction ::
  "'s TransactionRepository \<Rightarrow> nat \<Rightarrow> 's \<Rightarrow> (string + Transaction option) \<times> 's"
where
  "GetTransaction repo tid s =
     (let ((transaction, err), s) = GetByID repo tid s
      in case err of
           Some e \<Rightarrow>
             if is_ErrRecordNotFound e then (Inl ''transaction not found'', s)
             else (Inl (''failed to get transaction: '' @ Error e), s)
         | None \<Rightarrow> (Inr transaction, s))"

definition GetTransactions ::
  "'s TransactionRepository \<Rightarrow> TransactionFilters \<Rightarrow> 's \<Rightarrow> (string + Transaction list) \<times> 's"
where
  "GetTransactions repo filters s =
     (if TransactionFilters.Status filters \<noteq> [] \<and>
         TransactionFilters.Status filters \<noteq> ''pending'' \<and>
         TransactionFilters.Status filters \<noteq> ''success'' \<and>
         TransactionFilters.Status filters \<noteq> ''failed''
      then (Inl ''invalid status filter'', s)
      else
        let ((transactions, err), s) = GetAll repo filters s
        in case err of
             Some e \<Rightarrow> (Inl (''failed to get transactions: '' @ Error e), s)
           | None \<Rightarrow> (Inr transactions, s))"

definition UpdateTransactionStatus ::
  "'s TransactionRepository \<Rightarrow> nat \<Rightarrow> string \<Rightarrow> 's \<Rightarrow> (string + unit) \<times> 's"
where
  "UpdateTransactionStatus repo tid status s =
     (if status \<noteq> ''pending'' \<and> status \<noteq> ''success'' \<and> status \<noteq> ''failed''
      then (Inl ''invalid status'', s)
      else
        let ((_, err), s) = GetByID repo tid s
        in case err of
             Some e \<Rightarrow>
               if is_ErrRecordNotFound e then (Inl ''transaction not found'', s)
               else (Inl (''failed to get transaction: '' @ Error e), s)
           | None \<Rightarrow>
               let updates = [(''status'', StringValue status)];
                   (err, s) = Update repo tid updates s
               in case err of
                    Some e \<Rightarrow> (Inl (''failed to update transaction: '' @ Error e), s)
                  | None \<Rightarrow> (Inr (), s))"

definition DeleteTransaction ::
  "'s TransactionRepository \<Rightarrow> nat \<Rightarrow> 's \<Rightarrow> (string + unit) \<times> 's"
where
  "DeleteTransaction repo tid s =
     (let ((_, err), s) = GetByID repo tid s
      in case err of
           Some e \<Rightarrow>
             if is_ErrRecordNotFound e then (Inl ''transaction not found'', s)
             else (Inl (''failed to get transaction: '' @ Error e), s)
         | None \<Rightarrow>
             let (err, s) = Delete repo tid s
             in case err of
                  Some e \<Rightarrow> (Inl (''failed to delete transaction: '' @ Error e), s)
                | None \<Rightarrow> (Inr (), s))"


section \<open>Dashboard service (internal/services/dashboard.go)\<close>

definition GetSummary ::
  "'s TransactionRepository \<Rightarrow> 's \<Rightarrow> (string + DashboardSummary) \<times> 's"
where
  "GetSummary repo s =
     (let (((todayCount, todayAmount), err), s) = GetTodaySuccessful repo s
      in case err of
           Some e \<Rightarrow>
             (Inl (''failed to get today's successful transactions: '' @ Error e), s)
         | None \<Rightarrow>
       let ((avgPerUser, err), s) = GetAveragePerUser repo s
       in case err of
            Some e \<Rightarrow>
              (Inl (''failed to get average transactions per user: '' @ Error e), s)
          | None \<Rightarrow>
        let ((latestTransactions, err), s) = GetLatest repo 10 s
        in case err of
             Some e \<Rightarrow> (Inl (''failed to get latest transactions: '' @ Error e), s)
           | None \<Rightarrow>
         let ((statusCounts, err), s) = GetStatusCounts repo s
         in case err of
              Some e \<Rightarrow> (Inl (''failed to get status counts: '' @ Error e), s)
            | None \<Rightarrow>
                (Inr \<lparr>TodaySuccessfulTransactions = todayCount,
                      TodaySuccessfulAmount = todayAmount,
                      AverageTransactionPerUser = avgPerUser,
                      LatestTransactions = latestTransactions,
                      StatusCounts = statusCounts\<rparr>, s))"


section \<open>The database behind the repository\<close>

text \<open>
  The repository talks to one table, \<open>transactions\<close>, through the query builder of
  the ORM. The database is the table (its rows in insertion order), the auto-numbering
  counter of the primary key, the clock, and for each statement still to come whether it
  will fail (connectivity loss, query failure): a statement takes the head of
  \<open>outcomes\<close>, and an empty list means that every further statement goes through.
\<close>

record db =
  rows :: "Transaction list"
  next_id :: nat
  clock :: nat
  outcomes :: "go_error option list"

definition next_outcome :: "db \<Rightarrow> go_error option \<times> db" where
  "next_outcome d =
     (case outcomes d of
        [] \<Rightarrow> (None, d)
      | x # xs \<Rightarrow> (x, d\<lparr>outcomes := xs\<rparr>))"

text \<open>The calendar day of a time: what \<open>DATE(created_at)\<close> and
  \<open>time.Now().Format("2006-01-02")\<close> compare.\<close>

definition DATE :: "nat \<Rightarrow> nat" where
  "DATE t = t div 86400"

text \<open>The conditions the repository writes in its \<open>Where\<close> calls.\<close>

datatype cond =
    user_id_eq nat
  | status_eq string
  | id_eq nat
  | status_eq_and_date_eq string nat

fun holds :: "cond \<Rightarrow> Transaction \<Rightarrow> bool" where
  "holds (user_id_eq u) r = (Transaction.UserID r = u)"
| "holds (status_eq st) r = (Transaction.Status r = st)"
| "holds (id_eq i) r = (ID r = i)"
| "holds (status_eq_and_date_eq st day) r = (Transaction.Status r = st \<and> DATE (CreatedAt r) = day)"

datatype ordering = created_at_DESC

text \<open>
  A query under construction: the chain \<open>Model(...).Where(...).Limit(...).Offset(...).Order(...)\<close>
  collects its conditions and its clauses; \<open>None\<close> is a clause never set.
\<close>

record query =
  q_where :: "cond list"
  q_limit :: "int option"
  q_offset :: "int option"
  q_order :: "ordering option"

definition db_Model :: query where
  "db_Model = \<lparr>q_where = [], q_limit = None, q_offset = None, q_order = None\<rparr>"

definition db_Where :: "cond \<Rightarrow> query \<Rightarrow> query" where
  "db_Where c q = q\<lparr>q_where := q_where q @ [c]\<rparr>"

definition db_Limit :: "int \<Rightarrow> query \<Rightarrow> query" where
  "db_Limit n q = q\<lparr>q_limit := Some n\<rparr>"

definition db_Offset :: "int \<Rightarrow> query \<Rightarrow> query" where
  "db_Offset n q = q\<lparr>q_offset := Some n\<rparr>"

definition db_Order :: "ordering \<Rightarrow> query \<Rightarrow> query" where
  "db_Order ord q = q\<lparr>q_order := Some ord\<rparr>"

text \<open>
  The rows a query selects: the rows meeting every condition, ordered, then the offset
  and the limit. The ORM writes a \<open>LIMIT\<close> clause for a limit that is not negative and
  an \<open>OFFSET\<close> clause for a positive offset; a negative limit cancels the clause, so
  that no row is cut.
\<close>

definition apply_order :: "ordering option \<Rightarrow> Transaction list \<Rightarrow> Transaction list" where
  "apply_order ord rs =
     (case ord of
        None \<Rightarrow> rs
      | Some created_at_DESC \<Rightarrow> sort_key (\<lambda>r. - int (CreatedAt r)) rs)"

definition apply_offset :: "int option \<Rightarrow> Transaction list \<Rightarrow> Transaction list" where
  "apply_offset off rs =
     (case off of
        None \<Rightarrow> rs
      | Some n \<Rightarrow> if n > 0 then drop (nat n) rs else rs)"

definition apply_limit :: "int option \<Rightarrow> Transaction list \<Rightarrow> Transaction list" where
  "apply_limit lmt rs =
     (case lmt of
        None \<Rightarrow> rs
      | Some n \<Rightarrow> if n \<ge> 0 then take (nat n) rs else rs)"

definition matching :: "cond list \<Rightarrow> Transaction list \<Rightarrow> Transaction list" where
  "matching cs rs = filter (\<lambda>r. list_all (\<lambda>c. holds c r) cs) rs"

definition select_rows :: "query \<Rightarrow> Transaction list \<Rightarrow> Transaction list" where
  "select_rows q rs =
     apply_limit (q_limit q) (apply_offset (q_offset q) (apply_order (q_order q) (matching (q_where q) rs)))"

text \<open>\<open>Find\<close>: the selected rows, or the statement's error and no row.\<close>

definition db_Find :: "query \<Rightarrow> db \<Rightarrow> (Transaction list \<times> go_error option) \<times> db" where
  "db_Find q d =
     (let (out, d) = next_outcome d
      in case out of
           Some e \<Rightarrow> (([], Some e), d)
         | None \<Rightarrow> ((select_rows q (rows d), None), d))"

text \<open>\<open>Count\<close>: the number of selected rows; the counter stays \<open>0\<close> when the
  statement fails.\<close>

definition db_Count :: "query \<Rightarrow> db \<Rightarrow> (int \<times> go_error option) \<times> db" where
  "db_Count q d =
     (let (out, d) = next_outcome d
      in case out of
           Some e \<Rightarrow> ((0, Some e), d)
         | None \<Rightarrow> ((int (length (select_rows q (rows d))), None), d))"

text \<open>\<open>First(&transaction, id)\<close>: the row of that primary key, or the sentinel
  \<open>ErrRecordNotFound\<close> with the destination left at its zero value.\<close>

definition db_First :: "nat \<Rightarrow> db \<Rightarrow> (Transaction \<times> go_error option) \<times> db" where
  "db_First i d =
     (let (out, d) = next_outcome d
      in case out of
           Some e \<Rightarrow> ((zero_Transaction, Some e), d)
         | None \<Rightarrow>
             (case matching [id_eq i] (rows d) of
                [] \<Rightarrow> ((zero_Transaction, Some ErrRecordNotFound), d)
              | r # _ \<Rightarrow> ((r, None), d)))"

text \<open>
  \<open>Create(tx)\<close>: inserts the row. The store numbers a row whose key is zero and stamps
  the times that are zero; a key already in the table is a constraint violation. The
  pointer holds the inserted row afterwards.
\<close>

definition db_Create :: "Transaction \<Rightarrow> db \<Rightarrow> (Transaction \<times> go_error option) \<times> db" where
  "db_Create tx d =
     (let (out, d) = next_outcome d
      in case out of
           Some e \<Rightarrow> ((tx, Some e), d)
         | None \<Rightarrow>
             if ID tx \<noteq> 0 \<and> ID tx \<in> set (map ID (rows d))
             then ((tx, Some (GoError False ''duplicate entry for key PRIMARY'')), d)
             else
               let row = tx\<lparr>ID := (if ID tx = 0 then next_id d else ID tx),
                              CreatedAt := (if CreatedAt tx = 0 then clock d else CreatedAt tx),
                              UpdatedAt := (if UpdatedAt tx = 0 then clock d else UpdatedAt tx)\<rparr>
               in ((row, None),
                   d\<lparr>rows := rows d @ [row], next_id := max (next_id d) (ID row) + 1\<rparr>))"

text \<open>
  \<open>Updates(map)\<close>: writes the columns of the map into every selected row and stamps
  \<open>updated_at\<close>. A key that is no column of the table (or a value of the wrong kind)
  fails the statement. A statement that selects no row succeeds.
\<close>

fun set_column :: "string \<times> field_value \<Rightarrow> Transaction \<Rightarrow> Transaction option" where
  "set_column (k, StringValue v) r =
     (if k = ''status'' then Some (r\<lparr>Transaction.Status := v\<rparr>) else None)"
| "set_column (k, UintValue v) r =
     (if k = ''user_id'' then Some (r\<lparr>Transaction.UserID := v\<rparr>) else None)"
| "set_column (k, DecimalValue v) r =
     (if k = ''amount'' then Some (r\<lparr>Transaction.Amount := v\<rparr>) else None)"

fun set_columns :: "(string \<times> field_value) list \<Rightarrow> Transaction \<Rightarrow> Transaction option" where
  "set_columns [] r = Some r"
| "set_columns (kv # kvs) r =
     (case set_column kv r of None \<Rightarrow> None | Some r' \<Rightarrow> set_columns kvs r')"

definition db_Updates :: "query \<Rightarrow> (string \<times> field_value) list \<Rightarrow> db \<Rightarrow> go_error option \<times> db" where
  "db_Updates q updates d =
     (let (out, d) = next_outcome d
      in case out of
           Some e \<Rightarrow> (Some e, d)
         | None \<Rightarrow>
             if set_columns updates zero_Transaction = None
             then (Some (GoError False ''unknown column in field list''), d)
             else
               (None,
                d\<lparr>rows :=
                    map (\<lambda>r. if list_all (\<lambda>c. holds c r) (q_where q)
                              then (case set_columns updates r of
                                      Some r' \<Rightarrow> r'\<lparr>UpdatedAt := clock d\<rparr>
                                    | None \<Rightarrow> r)
                              else r)
                        (rows d)\<rparr>))"

text \<open>\<open>Delete(&models.Transaction{}, id)\<close>: removes the row of that key, if any.\<close>

definition db_Delete :: "nat \<Rightarrow> db \<Rightarrow> go_error option \<times> db" where
  "db_Delete i d =
     (let (out, d) = next_outcome d
      in case out of
           Some e \<Rightarrow> (Some e, d)
         | None \<Rightarrow> (None, d\<lparr>rows := filter (\<lambda>r. ID r \<noteq> i) (rows d)\<rparr>))"


text \<open>The aggregates of SQL: \<open>SUM\<close> and \<open>AVG\<close> over no row are \<open>NULL\<close>, which
  \<open>COALESCE\<close> replaces.\<close>

definition SQL_SUM :: "rat list \<Rightarrow> rat option" where
  "SQL_SUM xs = (if xs = [] then None else Some (sum_list xs))"

definition SQL_AVG :: "rat list \<Rightarrow> rat option" where
  "SQL_AVG xs = (if xs = [] then None else Some (sum_list xs / of_nat (length xs)))"

definition SQL_COALESCE :: "'a option \<Rightarrow> 'a \<Rightarrow> 'a" where
  "SQL_COALESCE v dflt = (case v of None \<Rightarrow> dflt | Some x \<Rightarrow> x)"

text \<open>\<open>Select("COALESCE(SUM(amount), 0)") ... Scan(&totalAmount)\<close>; the destination
  stays zero when the statement fails.\<close>

definition db_Scan_sum_amount :: "query \<Rightarrow> db \<Rightarrow> (rat \<times> go_error option) \<times> db" where
  "db_Scan_sum_amount q d =
     (let (out, d) = next_outcome d
      in case out of
           Some e \<Rightarrow> ((0, Some e), d)
         | None \<Rightarrow>
             ((SQL_COALESCE (SQL_SUM (map Transaction.Amount (select_rows q (rows d)))) 0, None), d))"

text \<open>
  The inner query of the average, \<open>SELECT user_id, COUNT(*) ... GROUP BY user_id\<close>: one
  line per distinct \<open>user_id\<close> with the number of its rows.
\<close>

definition user_counts :: "Transaction list \<Rightarrow> (nat \<times> nat) list" where
  "user_counts rs =
     map (\<lambda>u. (u, length (filter (\<lambda>r. Transaction.UserID r = u) rs)))
         (remdups (map Transaction.UserID rs))"

text \<open>The raw statement
  \<open>SELECT COALESCE(AVG(user_transaction_count), 0) as average FROM (...) as user_counts\<close>.\<close>

definition db_Raw_average :: "db \<Rightarrow> (rat \<times> go_error option) \<times> db" where
  "db_Raw_average d =
     (let (out, d) = next_outcome d
      in case out of
           Some e \<Rightarrow> ((0, Some e), d)
         | None \<Rightarrow>
             ((SQL_COALESCE (SQL_AVG (map (\<lambda>(u, n). of_nat n) (user_counts (rows d)))) 0, None), d))"

text \<open>\<open>Select("status, COUNT(*) as count").Group("status").Scan(...)\<close>: one line per
  status present in the table.\<close>

definition db_Scan_status_groups :: "db \<Rightarrow> ((string \<times> int) list \<times> go_error option) \<times> db" where
  "db_Scan_status_groups d =
     (let (out, d) = next_outcome d
      in case out of
           Some e \<Rightarrow> (([], Some e), d)
         | None \<Rightarrow>
             ((map (\<lambda>st. (st, int (length (filter (\<lambda>r. Transaction.Status r = st) (rows d)))))
                   (remdups (map Transaction.Status (rows d))), None), d))"


section \<open>The repository (transactionRepository)\<close>

definition transactionRepository_Create ::
  "Transaction \<Rightarrow> db \<Rightarrow> (Transaction \<times> go_error option) \<times> db"
where
  "transactionRepository_Create tx d = db_Create tx d"

definition transactionRepository_GetByID ::
  "nat \<Rightarrow> db \<Rightarrow> (Transaction option \<times> go_error option) \<times> db"
where
  "transactionRepository_GetByID tid d =
     (let ((transaction, err), d) = db_First tid d
      in case err of
           Some e \<Rightarrow> ((None, Some e), d)
         | None \<Rightarrow> ((Some transaction, None), d))"

text \<open>The query \<open>GetAll\<close> builds before it runs it.\<close>

definition GetAll_query :: "TransactionFilters \<Rightarrow> query" where
  "GetAll_query filters =
     (let query = db_Model;
          query = (if TransactionFilters.UserID filters \<noteq> 0
                   then db_Where (user_id_eq (TransactionFilters.UserID filters)) query
                   else query);
          query = (if TransactionFilters.Status filters \<noteq> []
                   then db_Where (status_eq (TransactionFilters.Status filters)) query
                   else query);
          limit = Limit filters;
          limit = (if limit = 0 \<or> limit > 100 then 20 else limit);
          offset = Offset filters;
          offset = (if offset < 0 then 0 else offset)
      in db_Order created_at_DESC (db_Offset offset (db_Limit limit query)))"

definition transactionRepository_GetAll ::
  "TransactionFilters \<Rightarrow> db \<Rightarrow> (Transaction list \<times> go_error option) \<times> db"
where
  "transactionRepository_GetAll filters d = db_Find (GetAll_query filters) d"

definition transactionRepository_Update ::
  "nat \<Rightarrow> (string \<times> field_value) list \<Rightarrow> db \<Rightarrow> go_error option \<times> db"
where
  "transactionRepository_Update tid updates d =
     db_Updates (db_Where (id_eq tid) db_Model) updates d"

definition transactionRepository_Delete :: "nat \<Rightarrow> db \<Rightarrow> go_error option \<times> db" where
  "transactionRepository_Delete tid d = db_Delete tid d"

definition transactionRepository_GetTodaySuccessful ::
  "db \<Rightarrow> ((int \<times> rat) \<times> go_error option) \<times> db"
where
  "transactionRepository_GetTodaySuccessful d =
     (let today = DATE (clock d);
          ((count, err), d) =
             db_Count (db_Where (status_eq_and_date_eq ''success'' today) db_Model) d
      in case err of
           Some e \<Rightarrow> (((0, 0), Some e), d)
         | None \<Rightarrow>
             let ((totalAmount, err), d) =
                   db_Scan_sum_amount
                     (db_Where (status_eq_and_date_eq ''success'' today) db_Model) d
             in case err of
                  Some e \<Rightarrow> (((0, 0), Some e), d)
                | None \<Rightarrow> (((count, totalAmount), None), d))"

definition transactionRepository_GetAveragePerUser :: "db \<Rightarrow> (rat \<times> go_error option) \<times> db" where
  "transactionRepository_GetAveragePerUser d = db_Raw_average d"

definition transactionRepository_GetLatest ::
  "int \<Rightarrow> db \<Rightarrow> (Transaction list \<times> go_error option) \<times> db"
where
  "transactionRepository_GetLatest limit d =
     db_Find (db_Limit limit (db_Order created_at_DESC db_Model)) d"

text \<open>
  \<open>GetStatusCounts\<close> checks the error of its first statement only; the three \<open>Count\<close>
  calls that follow are written without reading their \<open>.Error\<close>.
\<close>

definition transactionRepository_GetStatusCounts ::
  "db \<Rightarrow> (StatusCounts \<times> go_error option) \<times> db"
where
  "transactionRepository_GetStatusCounts d =
     (let counts = zero_StatusCounts;
          ((_, err), d) = db_Scan_status_groups d
      in case err of
           Some e \<Rightarrow> ((counts, Some e), d)
         | None \<Rightarrow>
             let ((successCount, _), d) = db_Count (db_Where (status_eq ''success'') db_Model) d;
                 ((pendingCount, _), d) = db_Count (db_Where (status_eq ''pending'') db_Model) d;
                 ((failedCount, _), d) = db_Count (db_Where (status_eq ''failed'') db_Model) d
             in ((counts\<lparr>Success := successCount, Pending := pendingCount,
                          Failed := failedCount\<rparr>, None), d))"

definition NewTransactionRepository :: "db TransactionRepository" where
  "NewTransactionRepository =
     \<lparr>Create = transactionRepository_Create,
      GetByID = transactionRepository_GetByID,
      GetAll = transactionRepository_GetAll,
      Update = transactionRepository_Update,
      Delete = transactionRepository_Delete,
      GetTodaySuccessful = transactionRepository_GetTodaySuccessful,
      GetAveragePerUser = transactionRepository_GetAveragePerUser,
      GetLatest = transactionRepository_GetLatest,
      GetStatusCounts = transactionRepository_GetStatusCounts\<rparr>"


section \<open>A repository that records its calls\<close>

text \<open>
  To speak of the store operations a service issues, a repository is wrapped so that every
  call is appended to a log kept beside its state, the way the mock repository of the
  service tests records them. The wrapped repository answers as the one it wraps.
\<close>

datatype call =
    Create_call Transaction
  | GetByID_call nat
  | GetAll_call TransactionFilters
  | Update_call nat "(string \<times> field_value) list"
  | Delete_call nat
  | GetTodaySuccessful_call
  | GetAveragePerUser_call
  | GetLatest_call int
  | GetStatusCounts_call

definition record_call :: "call \<Rightarrow> ('s \<Rightarrow> 'a \<times> 's) \<Rightarrow> 's \<times> call list \<Rightarrow> 'a \<times> ('s \<times> call list)" where
  "record_call c f sl = (let (res, s') = f (fst sl) in (res, (s', snd sl @ [c])))"

definition recording :: "'s TransactionRepository \<Rightarrow> ('s \<times> call list) TransactionRepository" where
  "recording r =
     \<lparr>Create = (\<lambda>tx. record_call (Create_call tx) (Create r tx)),
      GetByID = (\<lambda>i. record_call (GetByID_call i) (GetByID r i)),
      GetAll = (\<lambda>filters. record_call (GetAll_call filters) (GetAll r filters)),
      Update = (\<lambda>i updates. record_call (Update_call i updates) (Update r i updates)),
      Delete = (\<lambda>i. record_call (Delete_call i) (Delete r i)),
      GetTodaySuccessful = record_call GetTodaySuccessful_call (GetTodaySuccessful r),
      GetAveragePerUser = record_call GetAveragePerUser_call (GetAveragePerUser r),
      GetLatest = (\<lambda>n. record_call (GetLatest_call n) (GetLatest r n)),
      GetStatusCounts = record_call GetStatusCounts_call (GetStatusCounts r)\<rparr>"


section \<open>The list handler (internal/handlers/transaction.go, pkg/utils/response.go)\<close>

text \<open>The payload of a response: the \<open>interface{}\<close> that \<open>Data\<close> holds.\<close>

datatype payload =
    NoData
  | TransactionData Transaction
  | TransactionsData "Transaction list"
  | SummaryData DashboardSummary

text \<open>
  Modelled from the spec: the declaration of \<open>models.APIResponse\<close> is not among the
  sources. The spec gives one envelope to every response: a success flag, a payload and a
  human-readable message, and for an error the flag (false) and an error message string;
  \<open>response.go\<close> fills the fields \<open>Success\<close>, \<open>Data\<close>, \<open>Message\<close>, \<open>Error\<close>.
\<close>

record APIResponse =
  Success :: bool
  Data :: payload
  Message :: string
  Error :: string

text \<open>What \<open>c.JSON(code, response)\<close> writes.\<close>

record http_response =
  status_code :: nat
  body :: APIResponse

definition StatusOK :: nat where "StatusOK = 200"
definition StatusCreated :: nat where "StatusCreated = 201"
definition StatusBadRequest :: nat where "StatusBadRequest = 400"
definition StatusNotFound :: nat where "StatusNotFound = 404"
definition StatusInternalServerError :: nat where "StatusInternalServerError = 500"

definition SuccessResponse :: "payload \<Rightarrow> string \<Rightarrow> http_response" where
  "SuccessResponse dat message =
     \<lparr>status_code = StatusOK,
      body = \<lparr>APIResponse.Success = True, Data = dat, Message = message, APIResponse.Error = []\<rparr>\<rparr>"

definition ErrorResponse :: "nat \<Rightarrow> string \<Rightarrow> http_response" where
  "ErrorResponse statusCode message =
     \<lparr>status_code = statusCode,
      body = \<lparr>APIResponse.Success = False, Data = NoData, Message = [], APIResponse.Error = message\<rparr>\<rparr>"

definition BadRequestResponse :: "string \<Rightarrow> http_response" where
  "BadRequestResponse message = ErrorResponse StatusBadRequest message"

definition NotFoundResponse :: "string \<Rightarrow> http_response" where
  "NotFoundResponse message = ErrorResponse StatusNotFound message"

definition InternalServerErrorResponse :: "string \<Rightarrow> http_response" where
  "InternalServerErrorResponse message = ErrorResponse StatusInternalServerError message"

text \<open>
  The handler holds the service as an interface; of its methods the list handler calls
  \<open>GetTransactions\<close>, which is the parameter \<open>service\<close>. The outcome of
  \<open>c.ShouldBindQuery(&filters)\<close> is an input: \<open>Inl\<close> a binding error, \<open>Inr\<close> the
  filters decoded from the query string.
\<close>

definition TransactionHandler_GetTransactions ::
  "(TransactionFilters \<Rightarrow> 's \<Rightarrow> (string + Transaction list) \<times> 's) \<Rightarrow>
   string + TransactionFilters \<Rightarrow> 's \<Rightarrow> http_response \<times> 's"
where
  "TransactionHandler_GetTransactions service bound s =
     (case bound of
        Inl err \<Rightarrow> (BadRequestResponse ''Invalid query parameters'', s)
      | Inr filters \<Rightarrow>
          let (res, s) = service filters s
          in case res of
               Inl err \<Rightarrow> (BadRequestResponse err, s)
             | Inr transactions \<Rightarrow>
                 (SuccessResponse (TransactionsData transactions)
                    ''Transactions retrieved successfully'', s))"


section \<open>The spec's reading of the average per user\<close>



section \<open>Example tables\<close>

text \<open>Concrete rows and databases, on which the theorems below are instantiated.\<close>

definition example_transaction :: "nat \<Rightarrow> nat \<Rightarrow> string \<Rightarrow> Transaction" where
  "example_transaction i u st =
     \<lparr>ID = i, Transaction.UserID = u, Transaction.Amount = 201 / 2, Transaction.Status = st,
      CreatedAt = 1700000000 + i, UpdatedAt = 1700000000 + i\<rparr>"

definition example_db :: "Transaction list \<Rightarrow> go_error option list \<Rightarrow> db" where
  "example_db rs outs =
     \<lparr>rows = rs, next_id = Suc (length rs), clock = 1700003600, outcomes = outs\<rparr>"

definition three_rows :: "Transaction list" where
  "three_rows =
     [example_transaction 1 1 ''success'', example_transaction 2 1 ''pending'',
      example_transaction 3 2 ''success'']"


definition connection_lost :: go_error where
  "connection_lost = GoError False ''invalid connection''"


section \<open>Basic facts\<close>

lemma recording_simps:
  "Create (recording r) tx (s, lg) =
     (let (res, s') = Create r tx s in (res, (s', lg @ [Create_call tx])))"
  "GetByID (recording r) i (s, lg) =
     (let (res, s') = GetByID r i s in (res, (s', lg @ [GetByID_call i])))"
  "GetAll (recording r) f (s, lg) =
     (let (res, s') = GetAll r f s in (res, (s', lg @ [GetAll_call f])))"
  "Update (recording r) i u (s, lg) =
     (let (res, s') = Update r i u s in (res, (s', lg @ [Update_call i u])))"
  "Delete (recording r) i (s, lg) =
     (let (res, s') = Delete r i s in (res, (s', lg @ [Delete_call i])))"
  "GetTodaySuccessful (recording r) (s, lg) =
     (let (res, s') = GetTodaySuccessful r s in (res, (s', lg @ [GetTodaySuccessful_call])))"
  "GetAveragePerUser (recording r) (s, lg) =
     (let (res, s') = GetAveragePerUser r s in (res, (s', lg @ [GetAveragePerUser_call])))"
  "GetLatest (recording r) n (s, lg) =
     (let (res, s') = GetLatest r n s in (res, (s', lg @ [GetLatest_call n])))"
  "GetStatusCounts (recording r) (s, lg) =
     (let (res, s') = GetStatusCounts r s in (res, (s', lg @ [GetStatusCounts_call])))"
  by (simp_all add: recording_def record_call_def)

lemma NewTransactionRepository_simps:
  "Create NewTransactionRepository = transactionRepository_Create"
  "GetByID NewTransactionRepository = transactionRepository_GetByID"
  "GetAll NewTransactionRepository = transactionRepository_GetAll"
  "Update NewTransactionRepository = transactionRepository_Update"
  "Delete NewTransactionRepository = transactionRepository_Delete"
  "GetTodaySuccessful NewTransactionRepository = transactionRepository_GetTodaySuccessful"
  "GetAveragePerUser NewTransactionRepository = transactionRepository_GetAveragePerUser"
  "GetLatest NewTransactionRepository = transactionRepository_GetLatest"
  "GetStatusCounts NewTransactionRepository = transactionRepository_GetStatusCounts"
  by (simp_all add: NewTransactionRepository_def)

text \<open>Taking the outcome of a statement touches nothing but the list of outcomes.\<close>

lemma next_outcome_rows:
  "rows (snd (next_outcome d)) = rows d \<and> next_id (snd (next_outcome d)) = next_id d
   \<and> clock (snd (next_outcome d)) = clock d \<and> outcomes (snd (next_outcome d)) = tl (outcomes d)"
  by (simp add: next_outcome_def split: list.splits)

lemma GetByID_keeps_table:
  "rows (snd (transactionRepository_GetByID tid d)) = rows d"
  using next_outcome_rows[of d]
  by (cases "next_outcome d")
     (auto simp: transactionRepository_GetByID_def db_First_def Let_def
           split: prod.splits option.splits list.splits)

lemma db_Create_success:
  "db_Create tx d = ((stored, None), d') \<Longrightarrow>
     Transaction.Status stored = Transaction.Status tx \<and>
     Transaction.UserID stored = Transaction.UserID tx \<and>
     Transaction.Amount stored = Transaction.Amount tx \<and> rows d' = rows d @ [stored]"
  by (auto simp: db_Create_def next_outcome_def Let_def
           split: prod.splits option.splits list.splits if_splits)


section \<open>Creation\<close>

text \<open>
  Claim C1. For every creation request, \<open>CreateTransaction\<close> hands the store a transaction
  whose status is "pending" (with the request's user and amount, everything else zero: the
  request has no status field), and when the store reports success it returns the
  transaction as the store left it. With the repository of this program the stored row
  has status "pending".
\<close>

theorem CreateTransaction_pending:
  "(let tx = zero_Transaction\<lparr>Transaction.UserID := CreateTransactionRequest.UserID req,
                                Transaction.Amount := CreateTransactionRequest.Amount req,
                                Transaction.Status := ''pending''\<rparr>
    in snd (snd (CreateTransaction (recording r) req (s, lg))) = lg @ [Create_call tx]
       \<and> Transaction.Status tx = ''pending''
       \<and> (\<forall>stored s'. Create r tx s = ((stored, None), s')
             \<longrightarrow> CreateTransaction r req s = (Inr stored, s'))
       \<and> (\<forall>stored d'. Create NewTransactionRepository tx d = ((stored, None), d')
             \<longrightarrow> CreateTransaction NewTransactionRepository req d = (Inr stored, d')
                 \<and> Transaction.Status stored = ''pending''
                 \<and> rows d' = rows d @ [stored]))"
  unfolding Let_def
  apply (intro conjI allI impI)
  subgoal
    by (simp add: CreateTransaction_def recording_simps Let_def split: prod.splits option.splits)
  subgoal by simp
  subgoal by (simp add: CreateTransaction_def)
  subgoal by (simp add: CreateTransaction_def)
  subgoal
    by (simp add: NewTransactionRepository_simps transactionRepository_Create_def,
        drule db_Create_success, simp)
  subgoal
    by (simp add: NewTransactionRepository_simps transactionRepository_Create_def,
        drule db_Create_success, simp)
  done

theorem CreateTransaction_pending_witness:
  "CreateTransaction NewTransactionRepository
     \<lparr>CreateTransactionRequest.UserID = 1, CreateTransactionRequest.Amount = 201 / 2\<rparr>
     (example_db [] []) =
   (Inr \<lparr>ID = 1, Transaction.UserID = 1, Transaction.Amount = 201 / 2,
         Transaction.Status = ''pending'', CreatedAt = 1700003600, UpdatedAt = 1700003600\<rparr>,
    \<lparr>rows = [\<lparr>ID = 1, Transaction.UserID = 1, Transaction.Amount = 201 / 2,
         Transaction.Status = ''pending'', CreatedAt = 1700003600, UpdatedAt = 1700003600\<rparr>],
     next_id = 2, clock = 1700003600, outcomes = []\<rparr>)"
proof -
  let ?req = "\<lparr>CreateTransactionRequest.UserID = 1, CreateTransactionRequest.Amount = 201 / 2\<rparr>"
  let ?tx = "zero_Transaction\<lparr>Transaction.UserID := 1, Transaction.Amount := 201 / 2,
                               Transaction.Status := ''pending''\<rparr>"
  let ?stored = "\<lparr>ID = 1, Transaction.UserID = 1, Transaction.Amount = 201 / 2,
         Transaction.Status = ''pending'', CreatedAt = 1700003600, UpdatedAt = 1700003600\<rparr>"
  let ?d' = "\<lparr>rows = [?stored], next_id = 2, clock = 1700003600, outcomes = []\<rparr>"
  have store_ok: "Create NewTransactionRepository ?tx (example_db [] []) = ((?stored, None), ?d')"
    by (simp add: NewTransactionRepository_simps transactionRepository_Create_def db_Create_def
                  next_outcome_def example_db_def zero_Transaction_def Let_def)
  from CreateTransaction_pending
         [of ?req NewTransactionRepository "example_db [] []" "[]" "example_db [] []"]
  show ?thesis using store_ok by (simp add: Let_def)
qed


section \<open>Validation before storage\<close>

text \<open>
  Claim C2. For every status string outside "pending", "success", "failed":
  \<open>GetTransactions\<close> with that string as a non-empty status filter, and
  \<open>UpdateTransactionStatus\<close> with that string as the new status and any id, return the
  validation error and issue no store operation: the store state and the log of calls
  are the ones they were given.
\<close>

theorem invalid_status_rejected:
  assumes "status \<notin> {''pending'', ''success'', ''failed''}"
  shows "(TransactionFilters.Status filters = status \<and> status \<noteq> [] \<longrightarrow>
            GetTransactions (recording r) filters (s, lg) =
              (Inl ''invalid status filter'', (s, lg)))
         \<and> UpdateTransactionStatus (recording r) tid status (s, lg) =
              (Inl ''invalid status'', (s, lg))"
  using assms by (simp add: GetTransactions_def UpdateTransactionStatus_def)

theorem invalid_status_rejected_witness:
  "''bogus'' \<notin> {''pending'', ''success'', ''failed''}
   \<and> GetTransactions (recording NewTransactionRepository)
         \<lparr>TransactionFilters.UserID = 0, TransactionFilters.Status = ''bogus'',
          Limit = 0, Offset = 0\<rparr>
         (example_db three_rows [], []) =
       (Inl ''invalid status filter'', (example_db three_rows [], []))
   \<and> UpdateTransactionStatus (recording NewTransactionRepository) 2 ''bogus''
         (example_db three_rows [], []) =
       (Inl ''invalid status'', (example_db three_rows [], []))"
proof -
  have h: "''bogus'' \<notin> {''pending'', ''success'', ''failed''}" by simp
  from invalid_status_rejected[OF h,
         of "\<lparr>TransactionFilters.UserID = 0, TransactionFilters.Status = ''bogus'',
              Limit = 0, Offset = 0\<rparr>"
            NewTransactionRepository "example_db three_rows []" "[]" 2]
  show ?thesis using h by simp
qed


section \<open>Existence check before update and delete\<close>

text \<open>
  Claim C3. For every id for which the store's \<open>GetByID\<close> reports not-found,
  \<open>DeleteTransaction\<close>, and \<open>UpdateTransactionStatus\<close> with a valid status, return the
  error "transaction not found" after the single call \<open>GetByID\<close>: no \<open>Delete\<close> and no
  \<open>Update\<close> is issued, and the store is in the state the look-up left it in. The look-up
  of this program's repository leaves the table as it was.
\<close>

theorem not_found_short_circuits:
  assumes "GetByID r tid s = ((t, Some e), s')" and "is_ErrRecordNotFound e"
  shows "DeleteTransaction (recording r) tid (s, lg) =
           (Inl ''transaction not found'', (s', lg @ [GetByID_call tid]))
         \<and> (status \<in> {''pending'', ''success'', ''failed''} \<longrightarrow>
              UpdateTransactionStatus (recording r) tid status (s, lg) =
                (Inl ''transaction not found'', (s', lg @ [GetByID_call tid])))
         \<and> rows (snd (GetByID NewTransactionRepository tid d)) = rows d"
  using assms
  by (auto simp: DeleteTransaction_def UpdateTransactionStatus_def recording_simps
                 NewTransactionRepository_simps GetByID_keeps_table)

theorem not_found_short_circuits_witness:
  "DeleteTransaction (recording NewTransactionRepository) 7 (example_db three_rows [], []) =
     (Inl ''transaction not found'', (example_db three_rows [], [GetByID_call 7]))
   \<and> UpdateTransactionStatus (recording NewTransactionRepository) 7 ''failed''
        (example_db three_rows [], []) =
     (Inl ''transaction not found'', (example_db three_rows [], [GetByID_call 7]))"
proof -
  have g: "GetByID NewTransactionRepository 7 (example_db three_rows []) =
             ((None, Some ErrRecordNotFound), example_db three_rows [])"
    by (simp add: NewTransactionRepository_simps transactionRepository_GetByID_def db_First_def
                  next_outcome_def example_db_def three_rows_def example_transaction_def
                  matching_def)
  have n: "is_ErrRecordNotFound ErrRecordNotFound" by (simp add: ErrRecordNotFound_def)
  from not_found_short_circuits[OF g n, of "[]" "''failed''"]
  show ?thesis by simp
qed


section \<open>More basic facts\<close>

lemmas ex_defs = example_db_def three_rows_def example_transaction_def

text \<open>The recording repository answers as the repository it wraps: a service comes to the
  same result and the same store state over either.\<close>
lemma recording_same_result:
  "fst (CreateTransaction (recording r) req (s, lg)) = fst (CreateTransaction r req s)"
  "fst (GetTransactions (recording r) filters (s, lg)) = fst (GetTransactions r filters s)"
  "fst (UpdateTransactionStatus (recording r) tid status (s, lg)) =
     fst (UpdateTransactionStatus r tid status s)"
  "fst (DeleteTransaction (recording r) tid (s, lg)) = fst (DeleteTransaction r tid s)"
  "fst (GetSummary (recording r) (s, lg)) = fst (GetSummary r s)"
  by (auto simp: CreateTransaction_def GetTransactions_def UpdateTransactionStatus_def
                 DeleteTransaction_def GetSummary_def recording_simps Let_def
           split: prod.splits option.splits)

lemma recording_same_state:
  "fst (snd (CreateTransaction (recording r) req (s, lg))) = snd (CreateTransaction r req s)"
  "fst (snd (GetTransactions (recording r) filters (s, lg))) = snd (GetTransactions r filters s)"
  "fst (snd (UpdateTransactionStatus (recording r) tid status (s, lg))) =
     snd (UpdateTransactionStatus r tid status s)"
  "fst (snd (DeleteTransaction (recording r) tid (s, lg))) = snd (DeleteTransaction r tid s)"
  "fst (snd (GetSummary (recording r) (s, lg))) = snd (GetSummary r s)"
  by (auto simp: CreateTransaction_def GetTransactions_def UpdateTransactionStatus_def
                 DeleteTransaction_def GetSummary_def recording_simps Let_def
           split: prod.splits option.splits)


section \<open>Update of the status\<close>

lemma Update_status_rows:
  assumes "transactionRepository_Update tid [(''status'', StringValue st)] d = (None, d')"
  shows "rows d' = map (\<lambda>r. if ID r = tid then r\<lparr>Transaction.Status := st, UpdatedAt := clock d\<rparr> else r) (rows d)"
  using assms next_outcome_rows[of d]
  by (cases "next_outcome d")
     (auto simp: transactionRepository_Update_def db_Updates_def db_Where_def db_Model_def
           split: option.splits if_splits)

lemma Update_status_frame:
  assumes "transactionRepository_Update tid [(''status'', StringValue st)] d = (None, d')"
  shows "map ID (rows d') = map ID (rows d)
       \<and> map Transaction.UserID (rows d') = map Transaction.UserID (rows d)
       \<and> map Transaction.Amount (rows d') = map Transaction.Amount (rows d)
       \<and> map CreatedAt (rows d') = map CreatedAt (rows d)
       \<and> map Transaction.Status (rows d') =
           map (\<lambda>r. if ID r = tid then st else Transaction.Status r) (rows d)"
  by (simp add: Update_status_rows[OF assms] comp_def if_distrib cong: if_cong)

lemma UpdateTransactionStatus_calls:
  assumes "status \<in> {''pending'', ''success'', ''failed''}"
      and "GetByID r tid s = ((t, None), s1)"
      and "Update r tid [(''status'', StringValue status)] s1 = (None, s2)"
  shows "UpdateTransactionStatus (recording r) tid status (s, lg) =
           (Inr (), (s2, lg @ [GetByID_call tid, Update_call tid [(''status'', StringValue status)]]))"
  using assms by (auto simp: UpdateTransactionStatus_def recording_simps)

lemma matching_id_nonempty:
  "tid \<in> ID ` set rs \<Longrightarrow> matching [id_eq tid] rs \<noteq> []"
  by (auto simp: matching_def filter_empty_conv)

lemma UpdateTransactionStatus_existing:
  assumes "status \<in> {''pending'', ''success'', ''failed''}"
      and "tid \<in> ID ` set (rows d)"
      and "list_all (\<lambda>out. out = None) (take 2 (outcomes d))"
  shows "fst (UpdateTransactionStatus NewTransactionRepository tid status d) = Inr ()
       \<and> rows (snd (UpdateTransactionStatus NewTransactionRepository tid status d)) =
           map (\<lambda>r. if ID r = tid then r\<lparr>Transaction.Status := status, UpdatedAt := clock d\<rparr> else r) (rows d)"
proof -
  obtain d1 where n1: "next_outcome d = (None, d1)" and r1: "rows d1 = rows d" "clock d1 = clock d"
     and o1: "outcomes d1 = tl (outcomes d)"
    using assms(3) by (cases "outcomes d") (auto simp: next_outcome_def)
  obtain d2 where n2: "next_outcome d1 = (None, d2)" and r2: "rows d2 = rows d" "clock d2 = clock d"
    using assms(3) o1 r1 by (cases "outcomes d"; cases "outcomes d1") (auto simp: next_outcome_def)
  from assms(2) obtain x xs where m: "matching [id_eq tid] (rows d) = x # xs"
    using matching_id_nonempty[of tid "rows d"] by (cases "matching [id_eq tid] (rows d)") auto
  have g: "transactionRepository_GetByID tid d = ((Some x, None), d1)"
    by (simp add: transactionRepository_GetByID_def db_First_def n1 r1 m)
  have u: "transactionRepository_Update tid [(''status'', StringValue status)] d1 =
        (None, d2\<lparr>rows := map (\<lambda>r. if ID r = tid then r\<lparr>Transaction.Status := status, UpdatedAt := clock d\<rparr> else r) (rows d)\<rparr>)"
    by (simp add: transactionRepository_Update_def db_Updates_def n2 r2 db_Where_def db_Model_def cong: if_cong)
  show ?thesis using assms(1) g u
    by (auto simp: UpdateTransactionStatus_def NewTransactionRepository_simps)
qed

text \<open>
  Claim C9. For every status among "pending", "success", "failed", whatever the current
  status of the transaction: when the look-up finds the transaction and the store's
  \<open>Update\<close> goes through, \<open>UpdateTransactionStatus\<close> succeeds after exactly the calls
  \<open>GetByID\<close> and \<open>Update\<close>, the latter with the single entry \<open>status\<close>. On this program's
  repository it succeeds for every id present in the table when no statement fails, and
  the \<open>Update\<close> it issues leaves the id, user, amount and creation time of every row as
  they were: only the status of the row with that id becomes the new status.
\<close>

theorem UpdateTransactionStatus_status_only:
  assumes "status \<in> {''pending'', ''success'', ''failed''}"
  shows "(\<forall>t s1 s2.
            GetByID r tid s = ((t, None), s1) \<and>
            Update r tid [(''status'', StringValue status)] s1 = (None, s2) \<longrightarrow>
            UpdateTransactionStatus (recording r) tid status (s, lg) =
              (Inr (), (s2, lg @ [GetByID_call tid,
                                  Update_call tid [(''status'', StringValue status)]])))
       \<and> (tid \<in> ID ` set (rows d) \<and> list_all (\<lambda>out. out = None) (take 2 (outcomes d)) \<longrightarrow>
            fst (UpdateTransactionStatus NewTransactionRepository tid status d) = Inr () \<and>
            rows (snd (UpdateTransactionStatus NewTransactionRepository tid status d)) =
              map (\<lambda>row. if ID row = tid
                          then row\<lparr>Transaction.Status := status, UpdatedAt := clock d\<rparr>
                          else row) (rows d))
       \<and> (\<forall>d'. transactionRepository_Update tid [(''status'', StringValue status)] d = (None, d') \<longrightarrow>
            map ID (rows d') = map ID (rows d) \<and>
            map Transaction.UserID (rows d') = map Transaction.UserID (rows d) \<and>
            map Transaction.Amount (rows d') = map Transaction.Amount (rows d) \<and>
            map CreatedAt (rows d') = map CreatedAt (rows d) \<and>
            map Transaction.Status (rows d') =
              map (\<lambda>row. if ID row = tid then status else Transaction.Status row) (rows d))"
proof (intro conjI allI impI)
  fix t s1 s2
  assume "GetByID r tid s = ((t, None), s1) \<and>
          Update r tid [(''status'', StringValue status)] s1 = (None, s2)"
  then show "UpdateTransactionStatus (recording r) tid status (s, lg) =
              (Inr (), (s2, lg @ [GetByID_call tid,
                                  Update_call tid [(''status'', StringValue status)]]))"
    using UpdateTransactionStatus_calls[OF assms, of r tid s t s1 s2 lg] by simp
next
  assume h: "tid \<in> ID ` set (rows d) \<and> list_all (\<lambda>out. out = None) (take 2 (outcomes d))"
  note e = UpdateTransactionStatus_existing[OF assms conjunct1[OF h] conjunct2[OF h]]
  show "fst (UpdateTransactionStatus NewTransactionRepository tid status d) = Inr ()"
    using e by blast
  show "rows (snd (UpdateTransactionStatus NewTransactionRepository tid status d)) =
          map (\<lambda>row. if ID row = tid
                      then row\<lparr>Transaction.Status := status, UpdatedAt := clock d\<rparr>
                      else row) (rows d)"
    using e by blast
next
  fix d'
  assume u: "transactionRepository_Update tid [(''status'', StringValue status)] d = (None, d')"
  note f = Update_status_frame[OF u]
  show "map ID (rows d') = map ID (rows d)" using f by blast
  show "map Transaction.UserID (rows d') = map Transaction.UserID (rows d)" using f by blast
  show "map Transaction.Amount (rows d') = map Transaction.Amount (rows d)" using f by blast
  show "map CreatedAt (rows d') = map CreatedAt (rows d)" using f by blast
  show "map Transaction.Status (rows d') =
          map (\<lambda>row. if ID row = tid then status else Transaction.Status row) (rows d)"
    using f by blast
qed

theorem UpdateTransactionStatus_status_only_witness:
  "UpdateTransactionStatus (recording NewTransactionRepository) 2 ''pending''
     (example_db three_rows [], []) =
   (Inr (),
    (example_db
       [example_transaction 1 1 ''success'',
        (example_transaction 2 1 ''pending'')\<lparr>UpdatedAt := 1700003600\<rparr>,
        example_transaction 3 2 ''success''] [],
     [GetByID_call 2, Update_call 2 [(''status'', StringValue ''pending'')]]))
   \<and> fst (UpdateTransactionStatus NewTransactionRepository 2 ''pending''
            (example_db three_rows [])) = Inr ()
   \<and> map Transaction.UserID
        (rows (snd (transactionRepository_Update 2 [(''status'', StringValue ''pending'')]
                      (example_db three_rows [])))) = [1, 1, 2]"
proof -
  let ?d = "example_db three_rows []"
  let ?d2 = "example_db
       [example_transaction 1 1 ''success'',
        (example_transaction 2 1 ''pending'')\<lparr>UpdatedAt := 1700003600\<rparr>,
        example_transaction 3 2 ''success''] []"
  have v: "''pending'' \<in> {''pending'', ''success'', ''failed''}" by simp
  have g: "GetByID NewTransactionRepository 2 ?d = ((Some (example_transaction 2 1 ''pending''), None), ?d)"
    by (simp add: NewTransactionRepository_simps transactionRepository_GetByID_def db_First_def
                  next_outcome_def ex_defs matching_def)
  have u: "transactionRepository_Update 2 [(''status'', StringValue ''pending'')] ?d = (None, ?d2)"
    by (simp add: transactionRepository_Update_def db_Updates_def
                  db_Where_def db_Model_def next_outcome_def ex_defs zero_Transaction_def)
  have u': "Update NewTransactionRepository 2 [(''status'', StringValue ''pending'')] ?d = (None, ?d2)"
    using u by (simp add: NewTransactionRepository_simps)
  have ex: "2 \<in> ID ` set (rows ?d) \<and> list_all (\<lambda>out. out = None) (take 2 (outcomes ?d))"
    by (simp add: ex_defs)
  note th = UpdateTransactionStatus_status_only[OF v, of NewTransactionRepository 2 ?d "[]" ?d]
  have "UpdateTransactionStatus (recording NewTransactionRepository) 2 ''pending'' (?d, []) =
          (Inr (), (?d2, [GetByID_call 2, Update_call 2 [(''status'', StringValue ''pending'')]]))"
    using th g u' by simp
  moreover have "fst (UpdateTransactionStatus NewTransactionRepository 2 ''pending'' ?d) = Inr ()"
    using th ex by blast
  moreover have "map Transaction.UserID
        (rows (snd (transactionRepository_Update 2 [(''status'', StringValue ''pending'')] ?d))) =
          map Transaction.UserID (rows ?d)"
    using th u by simp
  moreover have "map Transaction.UserID (rows ?d) = [1, 1, 2]" by (simp add: ex_defs)
  ultimately show ?thesis by simp
qed


section \<open>Pagination\<close>


lemma length_apply_limit: "0 \<le> n \<Longrightarrow> length (apply_limit (Some n) rs) \<le> nat n"
  by (simp add: apply_limit_def)











section \<open>Dashboard summary\<close>

text \<open>
  Claim C5. \<open>GetSummary\<close> calls \<open>GetTodaySuccessful\<close>, \<open>GetAveragePerUser\<close>,
  \<open>GetLatest(10)\<close> and \<open>GetStatusCounts\<close> in this order. At the first of them that
  fails it returns the error naming that query, having issued none of the later ones;
  when all four succeed it returns the summary made of the four results.
\<close>

theorem GetSummary_order:
  assumes "GetTodaySuccessful r s = (((todayCount, todayAmount), e1), s1)"
      and "GetAveragePerUser r s1 = ((avgPerUser, e2), s2)"
      and "GetLatest r 10 s2 = ((latestTransactions, e3), s3)"
      and "GetStatusCounts r s3 = ((statusCounts, e4), s4)"
  shows "GetSummary (recording r) (s, lg) =
     (case e1 of
        Some e \<Rightarrow> (Inl (''failed to get today's successful transactions: '' @ go_error.Error e),
                   (s1, lg @ [GetTodaySuccessful_call]))
      | None \<Rightarrow>
     (case e2 of
        Some e \<Rightarrow> (Inl (''failed to get average transactions per user: '' @ go_error.Error e),
                   (s2, lg @ [GetTodaySuccessful_call, GetAveragePerUser_call]))
      | None \<Rightarrow>
     (case e3 of
        Some e \<Rightarrow> (Inl (''failed to get latest transactions: '' @ go_error.Error e),
                   (s3, lg @ [GetTodaySuccessful_call, GetAveragePerUser_call, GetLatest_call 10]))
      | None \<Rightarrow>
     (case e4 of
        Some e \<Rightarrow> (Inl (''failed to get status counts: '' @ go_error.Error e),
                   (s4, lg @ [GetTodaySuccessful_call, GetAveragePerUser_call, GetLatest_call 10,
                              GetStatusCounts_call]))
      | None \<Rightarrow>
          (Inr \<lparr>TodaySuccessfulTransactions = todayCount,
                TodaySuccessfulAmount = todayAmount,
                AverageTransactionPerUser = avgPerUser,
                LatestTransactions = latestTransactions,
                StatusCounts = statusCounts\<rparr>,
           (s4, lg @ [GetTodaySuccessful_call, GetAveragePerUser_call, GetLatest_call 10,
                      GetStatusCounts_call]))))))"
  using assms
  by (simp add: GetSummary_def recording_simps split: option.splits)

theorem GetSummary_order_witness:
  "GetSummary (recording NewTransactionRepository)
     (example_db three_rows [None, None, Some connection_lost], []) =
   (Inl ''failed to get average transactions per user: invalid connection'',
    (example_db three_rows [], [GetTodaySuccessful_call, GetAveragePerUser_call]))
   \<and> GetSummary (recording NewTransactionRepository) (example_db three_rows [], []) =
   (Inr \<lparr>TodaySuccessfulTransactions = 2,
         TodaySuccessfulAmount = 201,
         AverageTransactionPerUser = 3 / 2,
         LatestTransactions =
           [example_transaction 3 2 ''success'', example_transaction 2 1 ''pending'',
            example_transaction 1 1 ''success''],
         StatusCounts = \<lparr>StatusCounts.Success = 2, Pending = 1, Failed = 0\<rparr>\<rparr>,
    (example_db three_rows [],
     [GetTodaySuccessful_call, GetAveragePerUser_call, GetLatest_call 10, GetStatusCounts_call]))"
proof -
  let ?r = NewTransactionRepository
  let ?ok = "example_db three_rows []"
  let ?latest = "[example_transaction 3 2 ''success'', example_transaction 2 1 ''pending'',
            example_transaction 1 1 ''success'']"
  have today: "GetTodaySuccessful ?r (example_db three_rows [None, None, Some connection_lost]) =
                 (((2, 201), None), example_db three_rows [Some connection_lost])"
              "GetTodaySuccessful ?r ?ok = (((2, 201), None), ?ok)"
    by (simp_all add: NewTransactionRepository_simps transactionRepository_GetTodaySuccessful_def
                  db_Count_def db_Scan_sum_amount_def next_outcome_def ex_defs db_Where_def
                  db_Model_def select_rows_def matching_def apply_limit_def apply_offset_def
                  apply_order_def DATE_def SQL_SUM_def SQL_COALESCE_def)
  have avg: "GetAveragePerUser ?r (example_db three_rows [Some connection_lost]) =
               ((0, Some connection_lost), ?ok)"
            "GetAveragePerUser ?r ?ok = ((3 / 2, None), ?ok)"
    by (simp_all add: NewTransactionRepository_simps transactionRepository_GetAveragePerUser_def
                  db_Raw_average_def next_outcome_def ex_defs user_counts_def SQL_AVG_def
                  SQL_COALESCE_def)
  have latest: "GetLatest ?r 10 ?ok = ((?latest, None), ?ok)"
    by (simp add: NewTransactionRepository_simps transactionRepository_GetLatest_def
                  db_Find_def next_outcome_def ex_defs db_Limit_def db_Order_def
                  db_Model_def select_rows_def matching_def apply_limit_def apply_offset_def
                  apply_order_def)
  have counts: "GetStatusCounts ?r ?ok =
                  ((\<lparr>StatusCounts.Success = 2, Pending = 1, Failed = 0\<rparr>, None), ?ok)"
    by (simp add: NewTransactionRepository_simps transactionRepository_GetStatusCounts_def
                db_Scan_status_groups_def db_Count_def next_outcome_def ex_defs
                zero_StatusCounts_def db_Where_def db_Model_def select_rows_def matching_def
                apply_limit_def apply_offset_def apply_order_def)
  from GetSummary_order[OF today(1) avg(1) latest counts, of "[]"]
       GetSummary_order[OF today(2) avg(2) latest counts, of "[]"]
  show ?thesis by (simp add: connection_lost_def)
qed


section \<open>Errors of the store\<close>

text \<open>\<open>GetTodaySuccessful\<close> reads the error of each of its two statements: it returns a
  nil error only when both went through.\<close>

lemma GetTodaySuccessful_reports_failure:
  "snd (fst (transactionRepository_GetTodaySuccessful d)) = None \<Longrightarrow>
     list_all (\<lambda>out. out = None) (take 2 (outcomes d))"
  by (cases "outcomes d"; cases "tl (outcomes d)")
     (auto simp: transactionRepository_GetTodaySuccessful_def db_Count_def db_Scan_sum_amount_def
                 next_outcome_def Let_def split: option.splits prod.splits list.splits)

text \<open>
  Claim C6 asks that a store operation return a non-nil error whenever one of its
  queries fails. \<open>GetStatusCounts\<close> does not: on a table with two successful
  transactions, when its first statement goes through and the count of the "success"
  rows fails, it returns the counts with \<open>Success = 0\<close> and a nil error.
\<close>

theorem GetStatusCounts_swallows_count_error:
  "transactionRepository_GetStatusCounts (example_db three_rows [None, Some connection_lost]) =
     ((\<lparr>StatusCounts.Success = 0, Pending = 1, Failed = 0\<rparr>, None), example_db three_rows [])"
  by (simp add: transactionRepository_GetStatusCounts_def db_Scan_status_groups_def db_Count_def
                next_outcome_def example_db_def three_rows_def example_transaction_def
                zero_StatusCounts_def db_Where_def db_Model_def select_rows_def matching_def
                apply_limit_def apply_offset_def apply_order_def)


section \<open>Average per user\<close>











section \<open>The list handler\<close>

text \<open>
  Claim C8. For every error the service's \<open>GetTransactions\<close> returns, be it the
  validation error of a bad status filter or a wrapped storage error, the list handler
  answers with status 400 and that error's text; on no input does it answer 500.
\<close>

theorem list_handler_errors_are_400:
  assumes "service filters s = (Inl e, s')"
  shows "TransactionHandler_GetTransactions service (Inr filters) s = (BadRequestResponse e, s')
         \<and> status_code (BadRequestResponse e) = 400
         \<and> status_code (fst (TransactionHandler_GetTransactions service bound s0)) \<noteq> 500"
  using assms
  by (auto simp: TransactionHandler_GetTransactions_def BadRequestResponse_def ErrorResponse_def
                SuccessResponse_def StatusBadRequest_def StatusOK_def
           split: sum.splits prod.splits)

theorem list_handler_errors_are_400_witness:
  "TransactionHandler_GetTransactions (GetTransactions NewTransactionRepository)
     (Inr \<lparr>TransactionFilters.UserID = 0, TransactionFilters.Status = ''bogus'',
           Limit = 0, Offset = 0\<rparr>)
     (example_db three_rows []) =
   (ErrorResponse 400 ''invalid status filter'', example_db three_rows [])
   \<and> TransactionHandler_GetTransactions (GetTransactions NewTransactionRepository)
     (Inr \<lparr>TransactionFilters.UserID = 0, TransactionFilters.Status = [],
           Limit = 0, Offset = 0\<rparr>)
     (example_db three_rows [Some connection_lost]) =
   (ErrorResponse 400 ''failed to get transactions: invalid connection'', example_db three_rows [])"
proof -
  let ?svc = "GetTransactions NewTransactionRepository"
  let ?f = "\<lparr>TransactionFilters.UserID = 0, TransactionFilters.Status = ''bogus'',
           Limit = 0, Offset = 0\<rparr>"
  let ?g = "\<lparr>TransactionFilters.UserID = 0, TransactionFilters.Status = [],
           Limit = 0, Offset = 0\<rparr>"
  have a: "?svc ?f (example_db three_rows []) = (Inl ''invalid status filter'', example_db three_rows [])"
    by (simp add: GetTransactions_def)
  have b: "?svc ?g (example_db three_rows [Some connection_lost]) =
             (Inl ''failed to get transactions: invalid connection'', example_db three_rows [])"
    by (simp add: GetTransactions_def NewTransactionRepository_simps transactionRepository_GetAll_def
                  db_Find_def next_outcome_def example_db_def connection_lost_def)
  from list_handler_errors_are_400
         [of ?svc ?f "example_db three_rows []" "''invalid status filter''"
             "example_db three_rows []"]
       list_handler_errors_are_400
         [of ?svc ?g "example_db three_rows [Some connection_lost]"
             "''failed to get transactions: invalid connection''" "example_db three_rows []"]
       a b
  show ?thesis by (simp add: BadRequestResponse_def StatusBadRequest_def)
qed

end
